theory Spec2Isabelle
  imports Complex_Main
begin

section \<open>Energy, carbon and allocation logic of the monitoring layer\<close>

text \<open>
  The Python sources compute with \<^verbatim>\<open>float\<close> and \<^verbatim>\<open>int\<close> values. They are modelled
  here as \<^typ>\<open>real\<close>: the formulas are the exact arithmetic the code writes down, and
  the rounding of IEEE doubles (and NaN) is outside the model.
\<close>

subsection \<open>Python values used by all three modules\<close>

text \<open>
  An exception object: its class and the text \<^verbatim>\<open>str(e)\<close> gives (for a
  \<^verbatim>\<open>KeyError\<close>, the quoted key, as Python prints a key without quote characters).
\<close>

datatype py_exception = Exception string | KeyError string | ValueError string

fun py_str :: "py_exception \<Rightarrow> string" where
  "py_str (Exception m) = m"
| "py_str (ValueError m) = m"
| "py_str (KeyError k) = [CHR 0x27] @ k @ [CHR 0x27]"

text \<open>\<^verbatim>\<open>d.get(k, default)\<close>: the stored value on an exact match of the key, else the default.\<close>

definition dict_get :: "('k \<rightharpoonup> 'v) \<Rightarrow> 'k \<Rightarrow> 'v \<Rightarrow> 'v" where
  "dict_get d k dflt = (case d k of Some v \<Rightarrow> v | None \<Rightarrow> dflt)"

text \<open>\<^verbatim>\<open>d[k]\<close>: raises \<^verbatim>\<open>KeyError\<close> on a missing key.\<close>

definition dict_item :: "(string \<rightharpoonup> 'v) \<Rightarrow> string \<Rightarrow> py_exception + 'v" where
  "dict_item d k = (case d k of Some v \<Rightarrow> Inr v | None \<Rightarrow> Inl (KeyError k))"

subsection \<open>scripts/collect\_realtime\_data.py: RealTimeDataCollector\<close>

definition instance_base_power :: "string \<rightharpoonup> real" where
  "instance_base_power = map_of
     [(''t2.micro'', 2), (''t2.small'', 4), (''t2.medium'', 8),
      (''t3.micro'', 2), (''t3.small'', 4), (''t3.medium'', 8)]"

definition estimate_energy_consumption :: "real \<Rightarrow> string \<Rightarrow> real" where
  "estimate_energy_consumption cpu_utilization instance_type =
     (let base_power = dict_get instance_base_power instance_type 5;
          max_power = base_power * 2.5;
          power_consumption = base_power + (max_power - base_power) * (cpu_utilization / 100)
      in power_consumption)"

definition carbon_factors :: "string \<rightharpoonup> real" where
  "carbon_factors = map_of
     [(''us-east-1'', 400), (''eu-west-1'', 200), (''ap-southeast-1'', 600)]"

definition estimate_carbon_footprint :: "real \<Rightarrow> string \<Rightarrow> real" where
  "estimate_carbon_footprint energy_consumption region =
     (let factor = dict_get carbon_factors region 500
      in (energy_consumption / 1000) * factor)"

subsection \<open>src/energy\_monitoring.py: EnergyMonitor\<close>

text \<open>
  One entry of a metric series as \<^verbatim>\<open>get_instance_metrics\<close> builds it:
  \<^verbatim>\<open>{'timestamp': ..., 'value': ...}\<close>. The metrics dictionary maps a metric name to
  its series.
\<close>

record datapoint =
  timestamp :: nat
  "value" :: real

text \<open>\<^verbatim>\<open>cpu_utilization['value'].mean()\<close> on a non-empty frame: the arithmetic mean.\<close>

definition mean :: "real list \<Rightarrow> real" where
  "mean xs = sum_list xs / real (length xs)"

text \<open>The body of the \<^verbatim>\<open>try\<close> block; \<^verbatim>\<open>Inl\<close> is an exception raised inside it.\<close>

definition calculate_energy_consumption_try ::
  "(string \<rightharpoonup> datapoint list) \<Rightarrow> py_exception + real" where
  "calculate_energy_consumption_try metrics =
     (case dict_item metrics ''CPUUtilization'' of
        Inl e \<Rightarrow> Inl e
      | Inr cpu_utilization \<Rightarrow>
          if cpu_utilization \<noteq> [] then
            (let avg_cpu = mean (map datapoint.value cpu_utilization);
                 base_power = 100;
                 max_power = 200
             in Inr (base_power + (max_power - base_power) * (avg_cpu / 100)))
          else Inr 0)"

text \<open>The \<^verbatim>\<open>except Exception\<close> handler logs and returns 0.\<close>

definition calculate_energy_consumption :: "(string \<rightharpoonup> datapoint list) \<Rightarrow> real" where
  "calculate_energy_consumption metrics =
     (case calculate_energy_consumption_try metrics of
        Inl e \<Rightarrow> 0
      | Inr energy \<Rightarrow> energy)"

text \<open>
  The monitor has its own copy of the carbon estimate, with its own table and the same
  handler shape.
\<close>

definition monitor_carbon_factors :: "string \<rightharpoonup> real" where
  "monitor_carbon_factors = map_of
     [(''us-east-1'', 400), (''eu-west-1'', 200), (''ap-southeast-1'', 600)]"

definition monitor_estimate_carbon_footprint_try :: "real \<Rightarrow> string \<Rightarrow> py_exception + real" where
  "monitor_estimate_carbon_footprint_try energy_consumption region =
     (let factor = dict_get monitor_carbon_factors region 500
      in Inr ((energy_consumption / 1000) * factor))"

definition monitor_estimate_carbon_footprint :: "real \<Rightarrow> string \<Rightarrow> real" where
  "monitor_estimate_carbon_footprint energy_consumption region =
     (case monitor_estimate_carbon_footprint_try energy_consumption region of
        Inl e \<Rightarrow> 0
      | Inr carbon \<Rightarrow> carbon)"

subsection \<open>src/workload\_allocator.py: WorkloadAllocator\<close>

text \<open>
  The energy value of a candidate is a NumPy float, and here not-a-number matters:
  \<^verbatim>\<open>np.mean\<close> of an empty list is \<^verbatim>\<open>nan\<close> (with a warning, no exception), and
  every comparison with \<^verbatim>\<open>nan\<close> is false.
\<close>

datatype py_float = NaN | Num real

fun float_lt :: "py_float \<Rightarrow> py_float \<Rightarrow> bool" where
  "float_lt (Num a) (Num b) = (a < b)"
| "float_lt _ _ = False"

fun float_value :: "py_float \<Rightarrow> real" where
  "float_value (Num a) = a"
| "float_value NaN = 0"

definition np_mean :: "real list \<Rightarrow> py_float" where
  "np_mean vals = (if vals = [] then NaN else Num (mean vals))"

text \<open>
  The dictionary \<^verbatim>\<open>get_instance_energy_metrics\<close> returns for one instance.
\<close>

record instance_metrics =
  instance_id :: string
  energy_consumption :: py_float

text \<open>
  \<^verbatim>\<open>get_instance_energy_metrics\<close>: the response of the metrics service is a parameter,
  \<^verbatim>\<open>Some\<close> of the list \<^verbatim>\<open>response['MetricDataResults'][0]['Values']\<close>, or \<^verbatim>\<open>None\<close>
  when the call or the indexing raised; the handler logs and returns \<^verbatim>\<open>None\<close>.
\<close>

definition get_instance_energy_metrics ::
  "(string \<rightharpoonup> real list) \<Rightarrow> string \<Rightarrow> instance_metrics option" where
  "get_instance_energy_metrics cloudwatch iid =
     (case cloudwatch iid of
        None \<Rightarrow> None
      | Some vals \<Rightarrow> Some \<lparr>instance_id = iid, energy_consumption = np_mean vals\<rparr>)"

text \<open>The dictionary \<^verbatim>\<open>allocate_workload\<close> returns, by its \<^verbatim>\<open>status\<close> entry.\<close>

datatype allocation =
    Success (allocated_instance: string) (allocated_energy: py_float)
  | Error (message: string)

text \<open>
  Python's built-in \<^verbatim>\<open>min(iterable, key=f)\<close>: one pass that keeps the current best and
  replaces it only by an item whose key compares strictly smaller; \<^verbatim>\<open>ValueError\<close> on
  an empty iterable.
\<close>

fun min_scan :: "('a \<Rightarrow> py_float) \<Rightarrow> 'a \<Rightarrow> 'a list \<Rightarrow> 'a" where
  "min_scan key best [] = best"
| "min_scan key best (x # xs) =
     min_scan key (if float_lt (key x) (key best) then x else best) xs"

definition py_min :: "('a \<Rightarrow> py_float) \<Rightarrow> 'a list \<Rightarrow> py_exception + 'a" where
  "py_min key xs =
     (case xs of
        [] \<Rightarrow> Inl (ValueError ''min() arg is an empty sequence'')
      | x # rest \<Rightarrow> Inr (min_scan key x rest))"

text \<open>
  The two nested loops over reservations and instances: every instance whose metrics
  call returned a dictionary is appended, in order. The metrics call is passed in as
  \<open>get_metrics\<close>, so that a run of the method is
  \<open>allocate_workload d (get_instance_energy_metrics cloudwatch)\<close>.
\<close>

definition collect_instance_metrics ::
  "(string \<Rightarrow> instance_metrics option) \<Rightarrow> string list list \<Rightarrow> instance_metrics list" where
  "collect_instance_metrics get_metrics reservations =
     List.map_filter get_metrics (concat reservations)"

text \<open>
  The selection step of \<^verbatim>\<open>allocate_workload\<close> (``Find most energy-efficient
  instance''), inside the \<^verbatim>\<open>try\<close> block: \<^verbatim>\<open>Inl\<close> is the exception it raises.
\<close>

definition select_best :: "instance_metrics list \<Rightarrow> py_exception + allocation" where
  "select_best instance_metrics =
     (if instance_metrics \<noteq> [] then
        (case py_min energy_consumption instance_metrics of
           Inl e \<Rightarrow> Inl e
         | Inr best_instance \<Rightarrow>
             Inr (Success (instance_id best_instance) (energy_consumption best_instance)))
      else Inl (Exception ''No suitable instances found for workload allocation''))"

text \<open>
  \<^verbatim>\<open>allocate_workload\<close>: \<^verbatim>\<open>describe_instances\<close> either raises or lists the running
  instances by reservation; whatever is raised inside the \<^verbatim>\<open>try\<close> block is caught
  by \<^verbatim>\<open>except Exception\<close> and turned into an error dictionary. The result type keeps
  an \<^verbatim>\<open>Inl\<close> side for an exception that would reach the caller. The \<^verbatim>\<open>workload\<close>
  argument is never read by the method, and the log lines are left out.
\<close>

definition allocate_workload_try ::
  "(py_exception + string list list) \<Rightarrow> (string \<Rightarrow> instance_metrics option)
     \<Rightarrow> py_exception + allocation" where
  "allocate_workload_try describe_instances get_metrics =
     (case describe_instances of
        Inl e \<Rightarrow> Inl e
      | Inr reservations \<Rightarrow>
          select_best (collect_instance_metrics get_metrics reservations))"

definition allocate_workload ::
  "(py_exception + string list list) \<Rightarrow> (string \<Rightarrow> instance_metrics option)
     \<Rightarrow> py_exception + allocation" where
  "allocate_workload describe_instances get_metrics =
     (case allocate_workload_try describe_instances get_metrics of
        Inl e \<Rightarrow> Inr (Error (py_str e))
      | Inr result \<Rightarrow> Inr result)"

section \<open>Properties\<close>

subsection \<open>The static tables\<close>

lemma base_power_cases:
  "dict_get instance_base_power it 5 \<in> {2, 4, 5, 8}"
  by (simp add: dict_get_def instance_base_power_def)

lemma base_power_pos: "0 < dict_get instance_base_power it 5"
  using base_power_cases [of it] by auto

lemma base_power_le_8: "dict_get instance_base_power it 5 \<le> 8"
  using base_power_cases [of it] by auto

lemma carbon_factor_cases: "dict_get carbon_factors r 500 \<in> {200, 400, 500, 600}"
  by (simp add: dict_get_def carbon_factors_def)

lemma monitor_carbon_factor_cases: "dict_get monitor_carbon_factors r 500 \<in> {200, 400, 500, 600}"
  by (simp add: dict_get_def monitor_carbon_factors_def)

lemma carbon_factor_nonneg: "0 \<le> dict_get carbon_factors r 500"
  using carbon_factor_cases [of r] by auto

lemma monitor_carbon_factor_nonneg: "0 \<le> dict_get monitor_carbon_factors r 500"
  using monitor_carbon_factor_cases [of r] by auto

lemma estimate_energy_consumption_linear:
  "estimate_energy_consumption cpu it =
     dict_get instance_base_power it 5 * (1 + 3 * cpu / 200)"
  by (simp add: estimate_energy_consumption_def Let_def algebra_simps)

lemma monitor_estimate_carbon_footprint_eq:
  "monitor_estimate_carbon_footprint e r = (e / 1000) * dict_get monitor_carbon_factors r 500"
  by (simp add: monitor_estimate_carbon_footprint_def monitor_estimate_carbon_footprint_try_def)

lemma estimate_carbon_footprint_eq:
  "estimate_carbon_footprint e r = (e / 1000) * dict_get carbon_factors r 500"
  by (simp add: estimate_carbon_footprint_def)

subsection \<open>First-minimum selection\<close>

lemma float_lt_value:
  "a \<noteq> NaN \<Longrightarrow> b \<noteq> NaN \<Longrightarrow> float_lt a b \<longleftrightarrow> float_value a < float_value b"
  by (cases a; cases b) simp_all

lemma min_scan_keeps:
  "\<forall>x\<in>set post. \<not> float_lt (key x) (key b) \<Longrightarrow> min_scan key b post = b"
  by (induction post) auto

lemma min_scan_finds:
  "float_lt (key b) (key best) \<Longrightarrow> \<forall>x\<in>set pre. float_lt (key b) (key x)
     \<Longrightarrow> \<forall>x\<in>set post. \<not> float_lt (key x) (key b)
     \<Longrightarrow> min_scan key best (pre @ b # post) = b"
proof (induction pre arbitrary: best)
  case Nil
  then show ?case by (simp add: min_scan_keeps)
next
  case (Cons p pre)
  then show ?case by auto
qed

lemma py_min_first_minimum:
  assumes "\<forall>x\<in>set pre. float_lt (key b) (key x)"
    and "\<forall>x\<in>set post. \<not> float_lt (key x) (key b)"
  shows "py_min key (pre @ b # post) = Inr b"
proof (cases pre)
  case Nil
  with assms show ?thesis by (simp add: py_min_def min_scan_keeps)
next
  case (Cons p pre')
  with assms show ?thesis by (simp add: py_min_def min_scan_finds)
qed

lemma first_minimum_split:
  fixes key :: "'a \<Rightarrow> real"
  assumes "xs \<noteq> []"
  shows "\<exists>pre b post. xs = pre @ b # post
           \<and> (\<forall>x\<in>set pre. key b < key x) \<and> (\<forall>x\<in>set post. key b \<le> key x)"
proof -
  let ?m = "Min (key ` set xs)"
  have fin: "finite (key ` set xs)" and ne: "key ` set xs \<noteq> {}"
    using assms by auto
  have "?m \<in> key ` set xs" using Min_in [OF fin ne] .
  then have "\<exists>x\<in>set xs. key x = ?m" by auto
  then obtain pre b post where
    split: "xs = pre @ b # post" and b: "key b = ?m" and pre: "\<forall>y\<in>set pre. key y \<noteq> ?m"
    using split_list_first_prop [of xs "\<lambda>x. key x = ?m"] by blast
  have le: "?m \<le> key x" if "x \<in> set xs" for x
    using that fin by simp
  have "\<forall>x\<in>set pre. key b < key x"
  proof
    fix x assume "x \<in> set pre"
    then have mem: "x \<in> set xs" and neq: "key x \<noteq> ?m" using split pre by auto
    from le [OF mem] neq have "?m < key x" by (metis order_le_less)
    then show "key b < key x" unfolding b .
  qed
  moreover have "\<forall>x\<in>set post. key b \<le> key x"
  proof
    fix x assume "x \<in> set post"
    then have "x \<in> set xs" using split by simp
    from le [OF this] show "key b \<le> key x" unfolding b .
  qed
  ultimately have "xs = pre @ b # post
      \<and> (\<forall>x\<in>set pre. key b < key x) \<and> (\<forall>x\<in>set post. key b \<le> key x)"
    using split by simp
  then show ?thesis by (intro exI)
qed

text \<open>
  On a non-empty candidate list without \<^verbatim>\<open>nan\<close> the selection step returns a candidate
  of minimum energy, the first in the list among several: at the chosen position \<open>i\<close>
  no position compares smaller, and every earlier position compares greater. On
  \<open>[(a, 10), (b, 5), (c, 5)]\<close> it returns \<open>b\<close>.
\<close>

lemma select_best_first_minimum_of_numbers:
  assumes ne: "ms \<noteq> []" and num: "\<forall>m\<in>set ms. energy_consumption m \<noteq> NaN"
  shows "\<exists>i<length ms.
        select_best ms = Inr (Success (instance_id (ms ! i)) (energy_consumption (ms ! i)))
      \<and> (\<forall>j<length ms. \<not> float_lt (energy_consumption (ms ! j)) (energy_consumption (ms ! i)))
      \<and> (\<forall>j<i. float_lt (energy_consumption (ms ! i)) (energy_consumption (ms ! j)))"
proof -
  let ?v = "\<lambda>m. float_value (energy_consumption m)"
  obtain pre b post where
    split: "ms = pre @ b # post"
    and pre_v: "\<forall>x\<in>set pre. ?v b < ?v x"
    and post_v: "\<forall>x\<in>set post. ?v b \<le> ?v x"
    using first_minimum_split [OF ne, of ?v] by blast
  have b_num: "energy_consumption b \<noteq> NaN" using num split by simp
  have pre: "\<forall>x\<in>set pre. float_lt (energy_consumption b) (energy_consumption x)"
  proof
    fix x assume x: "x \<in> set pre"
    then have "energy_consumption x \<noteq> NaN" using num split by simp
    with b_num pre_v x show "float_lt (energy_consumption b) (energy_consumption x)"
      by (simp add: float_lt_value)
  qed
  have post: "\<forall>x\<in>set post. \<not> float_lt (energy_consumption x) (energy_consumption b)"
  proof
    fix x assume x: "x \<in> set post"
    then have "energy_consumption x \<noteq> NaN" using num split by simp
    moreover from post_v x have "\<not> ?v x < ?v b" by (simp add: not_less)
    ultimately show "\<not> float_lt (energy_consumption x) (energy_consumption b)"
      using b_num by (simp add: float_lt_value)
  qed
  define i where "i = length pre"
  have at: "ms ! i = b" using split by (simp add: i_def)
  have "select_best ms = Inr (Success (instance_id b) (energy_consumption b))"
    using py_min_first_minimum [OF pre post] split by (simp add: select_best_def)
  then have sel: "select_best ms
      = Inr (Success (instance_id (ms ! i)) (energy_consumption (ms ! i)))"
    unfolding at .
  have all: "\<forall>j<length ms.
      \<not> float_lt (energy_consumption (ms ! j)) (energy_consumption (ms ! i))"
  proof (intro allI impI)
    fix j assume "j < length ms"
    then have "ms ! j \<in> set ms" by simp
    then consider "ms ! j \<in> set pre" | "ms ! j = b" | "ms ! j \<in> set post"
      using split by auto
    then show "\<not> float_lt (energy_consumption (ms ! j)) (energy_consumption (ms ! i))"
    proof cases
      case 1
      then have "energy_consumption (ms ! j) \<noteq> NaN" using num split by simp
      moreover from 1 pre_v have "\<not> ?v (ms ! j) < ?v b" by (simp add: not_less less_imp_le)
      ultimately show ?thesis using b_num by (simp add: float_lt_value at)
    next
      case 2
      with b_num show ?thesis by (simp add: float_lt_value at)
    next
      case 3
      with post show ?thesis by (simp add: at)
    qed
  qed
  have before: "\<forall>j<i. float_lt (energy_consumption (ms ! i)) (energy_consumption (ms ! j))"
    using pre split by (simp add: nth_append i_def)
  have "i < length ms" using split by (simp add: i_def)
  with sel all before show ?thesis
    by (intro exI [of _ i] conjI)
qed

lemma select_best_spec_example:
  "select_best [\<lparr>instance_id = ''a'', energy_consumption = Num 10\<rparr>,
                \<lparr>instance_id = ''b'', energy_consumption = Num 5\<rparr>,
                \<lparr>instance_id = ''c'', energy_consumption = Num 5\<rparr>] = Inr (Success ''b'' (Num 5))"
  by (simp add: select_best_def py_min_def)

text \<open>What the selection step returns is what \<^verbatim>\<open>allocate_workload\<close> returns.\<close>

lemma allocate_workload_returns_selection:
  "select_best (collect_instance_metrics g rs) = Inr r \<Longrightarrow> allocate_workload (Inr rs) g = Inr r"
  by (simp add: allocate_workload_def allocate_workload_try_def)

lemma allocate_workload_returns:
  "\<exists>r. allocate_workload d g = Inr r"
  by (simp add: allocate_workload_def split: sum.splits)

subsection \<open>Carbon estimate: the scale of the result\<close>

text \<open>
  C1. The specification gives the carbon estimate as
  \<open>(energy_watts / 1000000) * factor\<close>, so that 14 W in \<^verbatim>\<open>us-east-1\<close> (factor 400)
  is 0.0056. Both implementations divide by 1000 only: at that input the collector and
  the monitor return 5.6, a thousand times the specified value.
\<close>

theorem estimate_carbon_footprint_us_east_1:
  "estimate_carbon_footprint 14 ''us-east-1'' = 5.6
   \<and> monitor_estimate_carbon_footprint 14 ''us-east-1'' = 5.6
   \<and> estimate_carbon_footprint 14 ''us-east-1'' = 1000 * ((14 / 1000000) * 400)"
  by (simp add: estimate_carbon_footprint_def monitor_estimate_carbon_footprint_def
      monitor_estimate_carbon_footprint_try_def dict_get_def carbon_factors_def
      monitor_carbon_factors_def)

subsection \<open>Allocation with no candidate\<close>

text \<open>
  C2, as stated: with an empty candidate set the error is raised to the caller and no
  value is returned. It fails: with no running instance, \<^verbatim>\<open>allocate_workload\<close> returns
  the error dictionary, and nothing is raised.
\<close>

theorem allocate_workload_empty_counterexample:
  "allocate_workload (Inr []) (map_of [])
     = Inr (Error ''No suitable instances found for workload allocation'')
   \<and> \<not> isl (allocate_workload (Inr []) (map_of []))"
  by (simp add: allocate_workload_def allocate_workload_try_def collect_instance_metrics_def
      select_best_def List.map_filter_simps)

text \<open>
  C2, amended: when no instance yields metrics, the selection step raises
  \<^verbatim>\<open>Exception("No suitable instances found for workload allocation")\<close> inside the
  \<^verbatim>\<open>try\<close> block, and \<^verbatim>\<open>allocate_workload\<close> catches it and returns the error
  dictionary carrying that message; the selection is run once.
\<close>

theorem allocate_workload_no_candidates:
  "collect_instance_metrics g rs = [] \<Longrightarrow>
     select_best (collect_instance_metrics g rs)
       = Inl (Exception ''No suitable instances found for workload allocation'')
     \<and> allocate_workload (Inr rs) g
       = Inr (Error ''No suitable instances found for workload allocation'')"
  by (simp add: allocate_workload_def allocate_workload_try_def select_best_def)

theorem allocate_workload_no_candidates_witness:
  "collect_instance_metrics (map_of []) [[''i-0a1'']] = []
   \<and> select_best (collect_instance_metrics (map_of []) [[''i-0a1'']])
       = Inl (Exception ''No suitable instances found for workload allocation'')
   \<and> allocate_workload (Inr [[''i-0a1'']]) (map_of [])
       = Inr (Error ''No suitable instances found for workload allocation'')"
proof -
  have h: "collect_instance_metrics (map_of []) [[''i-0a1'']] = []"
    by (simp add: collect_instance_metrics_def List.map_filter_simps)
  show ?thesis using h allocate_workload_no_candidates [OF h] by simp
qed

subsection \<open>Energy estimate: the interpolation formula\<close>

text \<open>
  C3. For a utilization in \<open>[0, 100]\<close> the collector's estimate is
  \<open>base + (base * 2.5 - base) * (cpu / 100)\<close>, where \<open>base\<close> is the table entry of the
  instance type on an exact match and 5 otherwise, and the multiplier is 2.5 for every
  type; at 50 percent on \<^verbatim>\<open>t3.medium\<close> (base 8) it is 14.
\<close>

theorem estimate_energy_consumption_formula:
  "0 \<le> cpu \<Longrightarrow> cpu \<le> 100 \<Longrightarrow>
     estimate_energy_consumption cpu it =
       (case instance_base_power it of
          Some b \<Rightarrow> b + (b * 2.5 - b) * (cpu / 100)
        | None \<Rightarrow> 5 + (5 * 2.5 - 5) * (cpu / 100))
     \<and> instance_base_power ''t3.medium'' = Some 8
     \<and> estimate_energy_consumption 50 ''t3.medium'' = 14"
  by (simp add: estimate_energy_consumption_def Let_def dict_get_def instance_base_power_def
      split: option.splits)

theorem estimate_energy_consumption_formula_witness:
  "(0::real) \<le> 25 \<and> (25::real) \<le> 100
   \<and> estimate_energy_consumption 25 ''t2.small'' = 4 + (4 * 2.5 - 4) * (25 / 100)
   \<and> estimate_energy_consumption 25 ''c5.xlarge'' = 5 + (5 * 2.5 - 5) * (25 / 100)"
  using estimate_energy_consumption_formula [of 25 "''t2.small''"]
    estimate_energy_consumption_formula [of 25 "''c5.xlarge''"]
  by (simp add: instance_base_power_def)

subsection \<open>Selection of the allocation target\<close>

text \<open>
  C4. The selection is to return the candidate of minimum energy consumption. It does
  not when the first candidate has no datapoints: with the running instances \<open>i-a\<close>
  (empty value list) and \<open>i-b\<close> (one value, 5), the metrics call gives \<open>i-a\<close> the
  energy \<^verbatim>\<open>nan\<close>, nothing compares smaller than \<^verbatim>\<open>nan\<close>, and \<open>i-a\<close> is returned
  in place of \<open>i-b\<close>.
\<close>

theorem allocate_workload_nan_first:
  "collect_instance_metrics
       (get_instance_energy_metrics (map_of [(''i-a'', []), (''i-b'', [5])])) [[''i-a'', ''i-b'']]
     = [\<lparr>instance_id = ''i-a'', energy_consumption = NaN\<rparr>,
        \<lparr>instance_id = ''i-b'', energy_consumption = Num 5\<rparr>]
   \<and> select_best [\<lparr>instance_id = ''i-a'', energy_consumption = NaN\<rparr>,
                   \<lparr>instance_id = ''i-b'', energy_consumption = Num 5\<rparr>]
     = Inr (Success ''i-a'' NaN)
   \<and> allocate_workload (Inr [[''i-a'', ''i-b'']])
        (get_instance_energy_metrics (map_of [(''i-a'', []), (''i-b'', [5])]))
     = Inr (Success ''i-a'' NaN)"
  by (simp add: allocate_workload_def allocate_workload_try_def collect_instance_metrics_def
      get_instance_energy_metrics_def np_mean_def mean_def select_best_def py_min_def
      List.map_filter_simps)

subsection \<open>Unknown keys\<close>

text \<open>
  C5. An instance type that is not in the power table is estimated with base 5 and
  multiplier 2.5 (maximum 12.5), and a region that is not in the carbon table with the
  factor 500, in the collector and in the monitor. No error arises: the collector's
  functions have no raising step, and the body of the monitor's \<^verbatim>\<open>try\<close> block
  returns a value.
\<close>

theorem fallback_profiles:
  "(instance_base_power it = None \<longrightarrow>
      estimate_energy_consumption cpu it = 5 + (12.5 - 5) * (cpu / 100))
   \<and> (carbon_factors r = None \<longrightarrow> estimate_carbon_footprint e r = (e / 1000) * 500)
   \<and> (monitor_carbon_factors r = None \<longrightarrow>
        monitor_estimate_carbon_footprint_try e r = Inr ((e / 1000) * 500)
        \<and> monitor_estimate_carbon_footprint e r = (e / 1000) * 500)"
  by (simp add: estimate_energy_consumption_def estimate_carbon_footprint_def
      monitor_estimate_carbon_footprint_def monitor_estimate_carbon_footprint_try_def
      dict_get_def Let_def)

theorem fallback_profiles_witness:
  "instance_base_power ''m5.large'' = None
   \<and> estimate_energy_consumption 40 ''m5.large'' = 8
   \<and> carbon_factors ''eu-north-1'' = None
   \<and> estimate_carbon_footprint 8 ''eu-north-1'' = 4
   \<and> monitor_carbon_factors ''eu-north-1'' = None
   \<and> monitor_estimate_carbon_footprint 8 ''eu-north-1'' = 4"
  using fallback_profiles [of "''m5.large''" 40 "''eu-north-1''" 8]
  by (simp add: instance_base_power_def carbon_factors_def monitor_carbon_factors_def)

subsection \<open>Shape of the energy estimate\<close>

text \<open>
  C6. For a fixed instance type the collector's estimate does not decrease when the
  utilization grows within \<open>[0, 100]\<close>, and for a utilization in \<open>[0, 100]\<close> it lies
  between the base power and the maximum power \<open>base * 2.5\<close>.
\<close>

theorem estimate_energy_consumption_monotone_bounded:
  "(0 \<le> u \<and> u \<le> v \<and> v \<le> 100 \<longrightarrow>
      estimate_energy_consumption u it \<le> estimate_energy_consumption v it)
   \<and> (0 \<le> u \<and> u \<le> 100 \<longrightarrow>
        dict_get instance_base_power it 5 \<le> estimate_energy_consumption u it
        \<and> estimate_energy_consumption u it \<le> dict_get instance_base_power it 5 * 2.5)"
proof -
  let ?b = "dict_get instance_base_power it 5"
  have pos: "0 < ?b" by (rule base_power_pos)
  have mono: "estimate_energy_consumption u it \<le> estimate_energy_consumption v it"
    if "u \<le> v" for u v
  proof -
    from that have "1 + 3 * u / 200 \<le> 1 + 3 * v / 200" by simp
    with pos have "?b * (1 + 3 * u / 200) \<le> ?b * (1 + 3 * v / 200)"
      by (simp only: mult_le_cancel_left_pos)
    then show ?thesis by (simp only: estimate_energy_consumption_linear)
  qed
  have at0: "estimate_energy_consumption 0 it = ?b"
    by (simp add: estimate_energy_consumption_linear)
  have at100: "estimate_energy_consumption 100 it = ?b * 2.5"
    by (simp add: estimate_energy_consumption_linear)
  show ?thesis
    using mono [of u v] mono [of 0 u] mono [of u 100] by (simp add: at0 at100)
qed

theorem estimate_energy_consumption_monotone_bounded_witness:
  "(0::real) \<le> 20 \<and> (20::real) \<le> 60 \<and> (60::real) \<le> 100
   \<and> estimate_energy_consumption 20 ''t2.micro'' \<le> estimate_energy_consumption 60 ''t2.micro''
   \<and> dict_get instance_base_power ''t2.micro'' 5 \<le> estimate_energy_consumption 20 ''t2.micro''
   \<and> estimate_energy_consumption 20 ''t2.micro'' \<le> dict_get instance_base_power ''t2.micro'' 5 * 2.5"
  using estimate_energy_consumption_monotone_bounded [of 20 60 "''t2.micro''"]
  by simp

text \<open>
  C8. Outside \<open>[0, 100]\<close> the utilization is not clamped: the same formula applies, so
  above 100 the estimate exceeds the maximum power, and below 0 it is less than the
  base power.
\<close>

theorem estimate_energy_consumption_unclamped:
  "(cpu < 0 \<or> 100 < cpu \<longrightarrow>
      estimate_energy_consumption cpu it =
        dict_get instance_base_power it 5
          + (dict_get instance_base_power it 5 * 2.5 - dict_get instance_base_power it 5)
              * (cpu / 100))
   \<and> (100 < cpu \<longrightarrow> dict_get instance_base_power it 5 * 2.5 < estimate_energy_consumption cpu it)
   \<and> (cpu < 0 \<longrightarrow> estimate_energy_consumption cpu it < dict_get instance_base_power it 5)"
proof -
  let ?b = "dict_get instance_base_power it 5"
  have pos: "0 < ?b" by (rule base_power_pos)
  have hi: "?b * 2.5 < estimate_energy_consumption cpu it" if "100 < cpu"
  proof -
    from that have "(5/2 :: real) < 1 + 3 * cpu / 200" by simp
    with pos have "?b * (5/2) < ?b * (1 + 3 * cpu / 200)"
      by (simp only: mult_less_cancel_left_pos)
    then show ?thesis by (simp add: estimate_energy_consumption_linear)
  qed
  have lo: "estimate_energy_consumption cpu it < ?b" if "cpu < 0"
  proof -
    from that have "1 + 3 * cpu / 200 < (1::real)" by simp
    with pos have "?b * (1 + 3 * cpu / 200) < ?b * 1"
      by (simp only: mult_less_cancel_left_pos)
    then show ?thesis by (simp add: estimate_energy_consumption_linear)
  qed
  show ?thesis using hi lo by (simp add: estimate_energy_consumption_def Let_def)
qed

theorem estimate_energy_consumption_unclamped_witness:
  "(100::real) < 150 \<and> estimate_energy_consumption 150 ''t3.medium'' = 26
   \<and> dict_get instance_base_power ''t3.medium'' 5 * 2.5 < estimate_energy_consumption 150 ''t3.medium''
   \<and> (-10::real) < 0 \<and> estimate_energy_consumption (-10) ''t3.medium'' = 6.8
   \<and> estimate_energy_consumption (-10) ''t3.medium'' < dict_get instance_base_power ''t3.medium'' 5"
  using estimate_energy_consumption_unclamped [of 150 "''t3.medium''"]
    estimate_energy_consumption_unclamped [of "-10" "''t3.medium''"]
  by (simp add: dict_get_def instance_base_power_def)

subsection \<open>Shape of the carbon estimate\<close>

text \<open>
  C7. For a non-negative energy the carbon estimate is non-negative, and doubling the
  energy doubles the estimate for the same region; in the collector and in the monitor.
\<close>

theorem estimate_carbon_footprint_nonneg_linear:
  "(0 \<le> e \<longrightarrow> 0 \<le> estimate_carbon_footprint e r)
   \<and> estimate_carbon_footprint (2 * e) r = 2 * estimate_carbon_footprint e r
   \<and> (0 \<le> e \<longrightarrow> 0 \<le> monitor_estimate_carbon_footprint e r)
   \<and> monitor_estimate_carbon_footprint (2 * e) r = 2 * monitor_estimate_carbon_footprint e r"
  using carbon_factor_nonneg [of r] monitor_carbon_factor_nonneg [of r]
  by (simp add: estimate_carbon_footprint_eq monitor_estimate_carbon_footprint_eq)

theorem estimate_carbon_footprint_nonneg_linear_witness:
  "(0::real) \<le> 14
   \<and> 0 \<le> estimate_carbon_footprint 14 ''eu-west-1''
   \<and> estimate_carbon_footprint (2 * 14) ''eu-west-1'' = 2 * estimate_carbon_footprint 14 ''eu-west-1''
   \<and> 0 \<le> monitor_estimate_carbon_footprint 14 ''eu-west-1''"
  using estimate_carbon_footprint_nonneg_linear [of 14 "''eu-west-1''"]
  by simp

subsection \<open>The monitor's energy calculation against the collector's\<close>

lemma calculate_energy_consumption_nonempty:
  "metrics ''CPUUtilization'' = Some dps \<Longrightarrow> dps \<noteq> [] \<Longrightarrow>
     calculate_energy_consumption metrics = 100 + mean (map datapoint.value dps)"
  by (simp add: calculate_energy_consumption_def calculate_energy_consumption_try_def
      dict_item_def Let_def)

text \<open>
  C10. The monitor's energy calculation takes no instance type: on a non-empty
  \<^verbatim>\<open>CPUUtilization\<close> series it returns \<open>100 + (200 - 100) * (mean / 100)\<close>, and on an
  empty series 0. It therefore differs from the collector's estimate: at the same
  non-negative mean utilization it is strictly greater for every instance type, and at
  utilization 0 it returns 100 where the collector returns the base power of the type
  (for \<^verbatim>\<open>t3.medium\<close> at 50 percent: 150 against 14).
\<close>

theorem calculate_energy_consumption_fixed_profile:
  "(metrics ''CPUUtilization'' = Some dps \<and> dps \<noteq> [] \<longrightarrow>
      calculate_energy_consumption metrics
        = 100 + (200 - 100) * (mean (map datapoint.value dps) / 100))
   \<and> (metrics ''CPUUtilization'' = Some [] \<longrightarrow> calculate_energy_consumption metrics = 0)
   \<and> (metrics ''CPUUtilization'' = Some dps \<and> dps \<noteq> [] \<and> 0 \<le> mean (map datapoint.value dps) \<longrightarrow>
        estimate_energy_consumption (mean (map datapoint.value dps)) it
          < calculate_energy_consumption metrics)
   \<and> (dict_get instance_base_power it 5 \<noteq> 100 \<longrightarrow>
        calculate_energy_consumption [''CPUUtilization'' \<mapsto> [\<lparr>timestamp = t, value = 0\<rparr>]]
          \<noteq> estimate_energy_consumption 0 it)
   \<and> calculate_energy_consumption [''CPUUtilization'' \<mapsto> [\<lparr>timestamp = t, value = 50\<rparr>]] = 150
   \<and> estimate_energy_consumption 50 ''t3.medium'' = 14"
proof (intro conjI impI)
  assume "metrics ''CPUUtilization'' = Some dps \<and> dps \<noteq> []"
  then show "calculate_energy_consumption metrics
      = 100 + (200 - 100) * (mean (map datapoint.value dps) / 100)"
    by (simp add: calculate_energy_consumption_nonempty)
next
  assume "metrics ''CPUUtilization'' = Some []"
  then show "calculate_energy_consumption metrics = 0"
    by (simp add: calculate_energy_consumption_def calculate_energy_consumption_try_def
        dict_item_def)
next
  let ?m = "mean (map datapoint.value dps)"
  let ?b = "dict_get instance_base_power it 5"
  assume h: "metrics ''CPUUtilization'' = Some dps \<and> dps \<noteq> [] \<and> 0 \<le> ?m"
  then have calc: "calculate_energy_consumption metrics = 100 + ?m"
    by (simp add: calculate_energy_consumption_nonempty)
  from h have "0 \<le> 1 + 3 * ?m / 200" by simp
  then have "?b * (1 + 3 * ?m / 200) \<le> 8 * (1 + 3 * ?m / 200)"
    using base_power_le_8 [of it] by (rule mult_right_mono [rotated])
  also have "\<dots> < 100 + ?m" using h by simp
  finally show "estimate_energy_consumption ?m it < calculate_energy_consumption metrics"
    by (simp only: estimate_energy_consumption_linear calc)
next
  assume "dict_get instance_base_power it 5 \<noteq> 100"
  then show "calculate_energy_consumption [''CPUUtilization'' \<mapsto> [\<lparr>timestamp = t, value = 0\<rparr>]]
      \<noteq> estimate_energy_consumption 0 it"
    by (simp add: calculate_energy_consumption_nonempty mean_def
        estimate_energy_consumption_linear)
next
  show "calculate_energy_consumption [''CPUUtilization'' \<mapsto> [\<lparr>timestamp = t, value = 50\<rparr>]] = 150"
    by (simp add: calculate_energy_consumption_nonempty mean_def)
next
  show "estimate_energy_consumption 50 ''t3.medium'' = 14"
    by (simp add: estimate_energy_consumption_def Let_def dict_get_def instance_base_power_def)
qed

theorem calculate_energy_consumption_fixed_profile_witness:
  "[''CPUUtilization'' \<mapsto> [\<lparr>timestamp = 0, value = 30\<rparr>, \<lparr>timestamp = 300, value = 50\<rparr>]]
       ''CPUUtilization''
     = Some [\<lparr>timestamp = 0, value = 30\<rparr>, \<lparr>timestamp = 300, value = 50\<rparr>]
   \<and> mean (map datapoint.value [\<lparr>timestamp = 0, value = 30\<rparr>, \<lparr>timestamp = 300, value = 50\<rparr>]) = 40
   \<and> calculate_energy_consumption
        [''CPUUtilization'' \<mapsto> [\<lparr>timestamp = 0, value = 30\<rparr>, \<lparr>timestamp = 300, value = 50\<rparr>]]
       = 140
   \<and> estimate_energy_consumption 40 ''t3.medium'' < 140
   \<and> dict_get instance_base_power ''t3.medium'' 5 = 8
   \<and> calculate_energy_consumption [''CPUUtilization'' \<mapsto> [\<lparr>timestamp = 0, value = 0\<rparr>]] = 100
   \<and> estimate_energy_consumption 0 ''t3.medium'' = 8
   \<and> [''CPUUtilization'' \<mapsto> ([] :: datapoint list)] ''CPUUtilization'' = Some []
   \<and> calculate_energy_consumption [''CPUUtilization'' \<mapsto> []] = 0"
  using calculate_energy_consumption_fixed_profile
    [of "[''CPUUtilization'' \<mapsto> [\<lparr>timestamp = 0, value = 30\<rparr>, \<lparr>timestamp = 300, value = 50\<rparr>]]"
        "[\<lparr>timestamp = 0, value = 30\<rparr>, \<lparr>timestamp = 300, value = 50\<rparr>]" "''t3.medium''" 0]
    calculate_energy_consumption_fixed_profile
    [of "[''CPUUtilization'' \<mapsto> []]" "[]" "''t3.medium''" 0]
  by (simp add: mean_def dict_get_def instance_base_power_def estimate_energy_consumption_def
      calculate_energy_consumption_nonempty)

end
